theory Spec2Isabelle
  imports Main "HOL-Library.Word"
begin

section \<open>Strings\<close>

text \<open>
  A JavaScript string is a sequence of UTF-16 code units. ASCII literals of the source are
  written through \<open>ascii\<close>; the emoji of the source's literals are written as their
  surrogate pairs.
\<close>

type_synonym jsstring = "16 word list"

definition ascii :: "string \<Rightarrow> jsstring" where
  "ascii s = map of_char s"

text \<open>
  \<open>String.prototype.trim\<close> removes the ECMAScript WhiteSpace and LineTerminator code
  points from both ends: TAB, LF, VT, FF, CR, SP, NBSP, U+1680, U+2000..U+200A, U+2028,
  U+2029, U+202F, U+205F, U+3000 and U+FEFF.
\<close>

definition isWhiteSpace :: "16 word \<Rightarrow> bool" where
  "isWhiteSpace c =
     (c = 0x0009 \<or> c = 0x000A \<or> c = 0x000B \<or> c = 0x000C \<or> c = 0x000D \<or> c = 0x0020
      \<or> c = 0x00A0 \<or> c = 0x1680 \<or> (0x2000 \<le> c \<and> c \<le> 0x200A) \<or> c = 0x2028
      \<or> c = 0x2029 \<or> c = 0x202F \<or> c = 0x205F \<or> c = 0x3000 \<or> c = 0xFEFF)"

definition trim :: "jsstring \<Rightarrow> jsstring" where
  "trim s = rev (dropWhile isWhiteSpace (rev (dropWhile isWhiteSpace s)))"

definition startsWith :: "jsstring \<Rightarrow> jsstring \<Rightarrow> bool" where
  "startsWith s p = (take (length p) s = p)"

text \<open>\<open>s.includes(t)\<close>: \<open>t\<close> occurs in \<open>s\<close> at some position.\<close>

fun includes_str :: "jsstring \<Rightarrow> jsstring \<Rightarrow> bool" where
  "includes_str [] t = (t = [])"
| "includes_str (c # s) t = (startsWith (c # s) t \<or> includes_str s t)"


section \<open>Data model (types.ts)\<close>

datatype MessageRole = User | AI

record ChatMessage =
  role :: MessageRole
  content :: jsstring

text \<open>The provider's \<open>Chat\<close> object is opaque; only its identity matters.\<close>

type_synonym Chat = nat

text \<open>
  A thrown value: an \<open>Error\<close> instance with its \<open>message\<close>, or any other value, kept as
  what \<open>String(error)\<close> renders.
\<close>

datatype thrown = Error jsstring | NonError jsstring

text \<open>
  What \<open>chatSession.sendMessageStream\<close> does for one call: the chunks it yields, each with
  its optional \<open>text\<close>, and then either a normal end (\<open>failure = None\<close>) or a thrown value.
  A rejected \<open>await\<close> of the call itself is a stream with no chunks and a failure.
\<close>

record stream =
  chunks :: "jsstring option list"
  failure :: "thrown option"


section \<open>The literals of the source\<close>

definition notInitializedText :: jsstring where
  "notInitializedText = ascii ''Chat session not initialized. Call createChatSession first.''"

definition entityNotFoundText :: jsstring where
  "entityNotFoundText = ascii ''Requested entity was not found.''"

definition oopsText :: jsstring where
  "oopsText = ascii ''Oops! '' @ [0xD83D, 0xDE14] @
     ascii '' It seems there was an issue with the API. Please try again. If the problem persists, your API key might need to be re-selected from a paid project. (ai.google.dev/gemini-api/docs/billing)''"

definition errorPrefix :: jsstring where
  "errorPrefix = ascii ''Error: ''"

definition errorMarker :: jsstring where
  "errorMarker = ascii ''Error:''"

definition noResponseText :: jsstring where
  "noResponseText =
     ascii ''Error: Could not get a response. Please try again or check console for details. '' @
     [0xD83D, 0xDE1E]"

definition clearedText :: jsstring where
  "clearedText = ascii ''Chat cleared! '' @ [0xD83D, 0xDC4B] @
     ascii '' I'm ready for new questions about your freelance full-stack journey. What's on your mind? '' @
     [0xD83E, 0xDD14]"

definition resetFailedText :: jsstring where
  "resetFailedText = ascii ''Oh no! '' @ [0xD83D, 0xDE1F] @
     ascii '' I couldn't reset our chat. Please ensure your API key is correctly configured. (ai.google.dev/gemini-api/docs/billing)''"


section \<open>Session manager (geminiService.ts)\<close>

text \<open>
  \<open>createChatSession\<close>: the module variable \<open>chatSession\<close> is assigned only when
  \<open>ai.chats.create\<close> returns; when the provider throws, the variable keeps its old value and
  the exception goes to the caller. The provider's outcome is the first argument.
\<close>

definition createChatSession :: "thrown + Chat \<Rightarrow> Chat option \<Rightarrow> (thrown + Chat) \<times> Chat option" where
  "createChatSession created chatSession =
     (case created of
        Inl e \<Rightarrow> (Inl e, chatSession)
      | Inr c \<Rightarrow> (Inr c, Some c))"

text \<open>
  The \<open>for await\<close> loop of \<open>sendMessage\<close>: the callback runs on the chunks whose \<open>text\<close> is
  truthy (present and not the empty string); the caller's state \<open>st\<close> is threaded through.
\<close>

fun forAwait :: "(jsstring \<Rightarrow> 'c \<Rightarrow> 'c) \<Rightarrow> jsstring option list \<Rightarrow> 'c \<Rightarrow> 'c" where
  "forAwait onChunkReceived [] st = st"
| "forAwait onChunkReceived (c # cs) st =
     forAwait onChunkReceived cs
       (case c of
          None \<Rightarrow> st
        | Some t \<Rightarrow> if t \<noteq> [] then onChunkReceived t st else st)"

definition isSessionInvalid :: "thrown \<Rightarrow> bool" where
  "isSessionInvalid error =
     (case error of
        Error m \<Rightarrow> includes_str m entityNotFoundText
      | NonError _ \<Rightarrow> False)"

definition errorText :: "thrown \<Rightarrow> jsstring" where
  "errorText error = (case error of Error m \<Rightarrow> m | NonError s \<Rightarrow> s)"

text \<open>
  \<open>sendMessage\<close>: the state is the module variable \<open>chatSession\<close> and the caller's state the
  callback works on. The result's first component is the exception that leaves the function,
  if any.
\<close>

definition sendMessage ::
  "(Chat \<Rightarrow> jsstring \<Rightarrow> stream) \<Rightarrow> jsstring \<Rightarrow> (jsstring \<Rightarrow> 'c \<Rightarrow> 'c) \<Rightarrow> Chat option \<times> 'c
     \<Rightarrow> thrown option \<times> Chat option \<times> 'c" where
  "sendMessage sendMessageStream msg onChunkReceived gst =
     (case fst gst of
        None \<Rightarrow> (Some (Error notInitializedText), gst)
      | Some chat \<Rightarrow>
          (let streamResponse = sendMessageStream chat msg;
               st = forAwait onChunkReceived (chunks streamResponse) (snd gst)
           in case failure streamResponse of
                None \<Rightarrow> (None, Some chat, st)
              | Some error \<Rightarrow>
                  if isSessionInvalid error
                  then (Some error, None, onChunkReceived oopsText st)
                  else (Some error, Some chat,
                        onChunkReceived (errorPrefix @ errorText error) st)))"


section \<open>Conversation controller (App.tsx)\<close>

record state =
  messages :: "ChatMessage list"
  input :: jsstring
  isLoading :: bool
  chatSessionRef :: "Chat option"
  chatSession :: "Chat option"

text \<open>
  \<open>onChunkReceived\<close> closes over the local \<open>fullAIResponse\<close> of its turn; here it works on
  the pair of that variable and the transcript.
\<close>

definition onChunkReceived :: "jsstring \<Rightarrow> jsstring \<times> ChatMessage list \<Rightarrow> jsstring \<times> ChatMessage list" where
  "onChunkReceived chunk st =
     (let fullAIResponse = fst st @ chunk;
          prevMessages = snd st
      in (fullAIResponse,
          if prevMessages \<noteq> [] \<and> role (last prevMessages) = AI
          then butlast prevMessages @ [(last prevMessages)\<lparr>content := fullAIResponse\<rparr>]
          else prevMessages @ [\<lparr>role = AI, content = fullAIResponse\<rparr>]))"

text \<open>The state update of the \<open>catch\<close> block of \<open>handleSendMessage\<close>.\<close>

definition catchUpdate :: "ChatMessage list \<Rightarrow> ChatMessage list" where
  "catchUpdate prevMessages =
     (if prevMessages = [] \<or> role (last prevMessages) \<noteq> AI
         \<or> \<not> startsWith (content (last prevMessages)) errorMarker
      then prevMessages @ [\<lparr>role = AI, content = noResponseText\<rparr>]
      else prevMessages)"

definition handleSendMessage :: "(Chat \<Rightarrow> jsstring \<Rightarrow> stream) \<Rightarrow> state \<Rightarrow> state" where
  "handleSendMessage sendMessageStream s =
     (if trim (input s) = [] \<or> isLoading s then s
      else
        let userMessage = \<lparr>role = User, content = trim (input s)\<rparr>;
            s1 = s\<lparr>messages := messages s @ [userMessage], input := [], isLoading := True\<rparr>;
            r = sendMessage sendMessageStream (content userMessage) onChunkReceived
                  (chatSession s1, ([], messages s1));
            s2 = s1\<lparr>chatSession := fst (snd r), messages := snd (snd (snd r))\<rparr>;
            s3 = (case fst r of
                    None \<Rightarrow> s2
                  | Some error \<Rightarrow> s2\<lparr>messages := catchUpdate (messages s2)\<rparr>)
        in s3\<lparr>isLoading := False\<rparr>)"

definition handleClearChat :: "thrown + Chat \<Rightarrow> state \<Rightarrow> state" where
  "handleClearChat created s =
     (let s1 = s\<lparr>isLoading := True, messages := []\<rparr>;
          r = createChatSession created (chatSession s1);
          s2 = (case fst r of
                  Inr c \<Rightarrow> s1\<lparr>chatSession := snd r, chatSessionRef := Some c,
                              messages := [\<lparr>role = AI, content = clearedText\<rparr>]\<rparr>
                | Inl error \<Rightarrow> s1\<lparr>chatSession := snd r,
                                  messages := [\<lparr>role = AI, content = resetFailedText\<rparr>]\<rparr>)
      in s2\<lparr>isLoading := False\<rparr>)"


section \<open>Specification-side notions\<close>

text \<open>The texts a chunk sequence hands to the callback: the truthy ones, in order.\<close>

definition deliveredTexts :: "jsstring option list \<Rightarrow> jsstring list" where
  "deliveredTexts cs =
     concat (map (\<lambda>c. case c of None \<Rightarrow> [] | Some t \<Rightarrow> if t = [] then [] else [t]) cs)"

text \<open>A callback that only records its arguments, to count and order the invocations.\<close>

definition record_call :: "jsstring \<Rightarrow> jsstring list \<Rightarrow> jsstring list" where
  "record_call t calls = calls @ [t]"

text \<open>The messages a turn added to a transcript that had \<open>n\<close> entries before.\<close>

definition appended :: "nat \<Rightarrow> state \<Rightarrow> ChatMessage list" where
  "appended n s = drop n (messages s)"

definition count_role :: "MessageRole \<Rightarrow> ChatMessage list \<Rightarrow> nat" where
  "count_role r ms = length (filter (\<lambda>m. role m = r) ms)"

text \<open>A string with a white-space code unit at its start or its end.\<close>

definition hasSurroundingWhiteSpace :: "jsstring \<Rightarrow> bool" where
  "hasSurroundingWhiteSpace t = (t \<noteq> [] \<and> (isWhiteSpace (hd t) \<or> isWhiteSpace (last t)))"

text \<open>No User message of the transcript has surrounding white space.\<close>

definition noUserWhiteSpace :: "ChatMessage list \<Rightarrow> bool" where
  "noUserWhiteSpace ms = list_all (\<lambda>m. role m = AI \<or> \<not> hasSurroundingWhiteSpace (content m)) ms"



section \<open>The loop and the callback\<close>

lemma forAwait_fold: "forAwait cb cs st = fold cb (deliveredTexts cs) st"
  by (induction cs arbitrary: st) (auto simp: deliveredTexts_def split: option.splits)

lemma onChunk_pending:
  "role m = AI \<Longrightarrow> onChunkReceived t (full, ms @ [m]) = (full @ t, ms @ [m\<lparr>content := full @ t\<rparr>])"
  by (simp add: onChunkReceived_def Let_def)

lemma onChunk_fresh:
  "ms = [] \<or> role (last ms) \<noteq> AI \<Longrightarrow>
   onChunkReceived t (full, ms) = (full @ t, ms @ [\<lparr>role = AI, content = full @ t\<rparr>])"
  by (auto simp add: onChunkReceived_def Let_def)

lemma fold_onChunk_pending:
  "role m = AI \<Longrightarrow> ts \<noteq> [] \<Longrightarrow>
   fold onChunkReceived ts (full, ms @ [m]) = (full @ concat ts, ms @ [m\<lparr>content := full @ concat ts\<rparr>])"
proof (induction ts arbitrary: full m)
  case Nil then show ?case by simp
next
  case (Cons t ts)
  show ?case
  proof (cases "ts = []")
    case True
    then show ?thesis using Cons.prems by (simp add: onChunk_pending)
  next
    case False
    have "role (m\<lparr>content := full @ t\<rparr>) = AI" using Cons.prems by simp
    from Cons.IH[OF this False, of "full @ t"] show ?thesis
      using Cons.prems by (simp add: onChunk_pending)
  qed
qed

lemma fold_onChunk_fresh:
  assumes "ms = [] \<or> role (last ms) \<noteq> AI" and "ts \<noteq> []"
  shows "fold onChunkReceived ts (full, ms) =
         (full @ concat ts, ms @ [\<lparr>role = AI, content = full @ concat ts\<rparr>])"
proof (cases ts)
  case Nil with assms show ?thesis by simp
next
  case (Cons t ts')
  show ?thesis
  proof (cases "ts' = []")
    case True
    then show ?thesis using assms Cons by (simp add: onChunk_fresh)
  next
    case False
    have "role \<lparr>role = AI, content = full @ t\<rparr> = AI" by simp
    from fold_onChunk_pending[OF this False, of "full @ t" ms] show ?thesis
      using assms Cons by (simp add: onChunk_fresh)
  qed
qed

lemma fold_onChunk_turn:
  assumes "role u = User"
  shows "fold onChunkReceived ts ([], ms @ [u]) =
         (concat ts, ms @ [u] @ (if ts = [] then [] else [\<lparr>role = AI, content = concat ts\<rparr>]))"
proof (cases "ts = []")
  case True then show ?thesis by simp
next
  case False
  have "ms @ [u] = [] \<or> role (last (ms @ [u])) \<noteq> AI" using assms by simp
  from fold_onChunk_fresh[OF this False, of "[]"] show ?thesis using False by simp
qed

lemma onChunk_after_turn:
  assumes "role u = User"
  shows "onChunkReceived t (fold onChunkReceived ts ([], ms @ [u])) =
         (concat ts @ t, ms @ [u, \<lparr>role = AI, content = concat ts @ t\<rparr>])"
proof (cases "ts = []")
  case True
  have "ms @ [u] = [] \<or> role (last (ms @ [u])) \<noteq> AI" using assms by simp
  from onChunk_fresh[OF this, of t "[]"] show ?thesis using True by simp
next
  case False
  have "role \<lparr>role = AI, content = concat ts\<rparr> = AI" by simp
  from onChunk_pending[OF this, of t "concat ts" "ms @ [u]"]
  show ?thesis using False by (simp add: fold_onChunk_turn[OF assms])
qed

lemma catchUpdate_ai:
  "catchUpdate (ms @ [\<lparr>role = AI, content = full\<rparr>]) =
   ms @ [\<lparr>role = AI, content = full\<rparr>] @
     (if startsWith full errorMarker then [] else [\<lparr>role = AI, content = noResponseText\<rparr>])"
  by (simp add: catchUpdate_def)

lemma turn_no_session:
  assumes "trim (input s) \<noteq> []" "\<not> isLoading s" "chatSession s = None"
  shows "handleSendMessage sms s =
         s\<lparr>messages := messages s @ [\<lparr>role = User, content = trim (input s)\<rparr>,
                                      \<lparr>role = AI, content = noResponseText\<rparr>],
           input := [], isLoading := False\<rparr>"
  using assms
  by (simp add: handleSendMessage_def sendMessage_def Let_def catchUpdate_def)

lemma turn_success:
  assumes "trim (input s) \<noteq> []" "\<not> isLoading s" "chatSession s = Some c"
    and "failure (sms c (trim (input s))) = None"
  shows "handleSendMessage sms s =
         s\<lparr>messages := messages s @ [\<lparr>role = User, content = trim (input s)\<rparr>] @
              (if deliveredTexts (chunks (sms c (trim (input s)))) = [] then []
               else [\<lparr>role = AI, content = concat (deliveredTexts (chunks (sms c (trim (input s)))))\<rparr>]),
           input := [], isLoading := False\<rparr>"
  using assms
  by (simp add: handleSendMessage_def sendMessage_def Let_def forAwait_fold fold_onChunk_turn)

lemma turn_failure:
  assumes "trim (input s) \<noteq> []" "\<not> isLoading s" "chatSession s = Some c"
    and "failure (sms c (trim (input s))) = Some e"
    and "full = concat (deliveredTexts (chunks (sms c (trim (input s))))) @
                  (if isSessionInvalid e then oopsText else errorPrefix @ errorText e)"
  shows "handleSendMessage sms s =
         s\<lparr>messages := messages s @ [\<lparr>role = User, content = trim (input s)\<rparr>,
                                      \<lparr>role = AI, content = full\<rparr>] @
              (if startsWith full errorMarker then []
               else [\<lparr>role = AI, content = noResponseText\<rparr>]),
           input := [], isLoading := False,
           chatSession := (if isSessionInvalid e then None else Some c)\<rparr>"
proof -
  let ?u = "\<lparr>role = User, content = trim (input s)\<rparr>"
  have u: "role ?u = User" by simp
  have c: "catchUpdate (messages s @ [?u, \<lparr>role = AI, content = full\<rparr>]) =
        messages s @ [?u, \<lparr>role = AI, content = full\<rparr>] @
        (if startsWith full errorMarker then [] else [\<lparr>role = AI, content = noResponseText\<rparr>])"
    using catchUpdate_ai[of "messages s @ [?u]" full] by simp
  show ?thesis
  proof (cases "isSessionInvalid e")
    case True
    with assms(5) have full: "concat (deliveredTexts (chunks (sms c (trim (input s))))) @ oopsText = full"
      by simp
    show ?thesis
      using assms(1-4) True
      by (simp add: handleSendMessage_def sendMessage_def Let_def forAwait_fold
          onChunk_after_turn[OF u] full c)
  next
    case False
    with assms(5) have full: "concat (deliveredTexts (chunks (sms c (trim (input s))))) @
        errorPrefix @ errorText e = full"
      by simp
    show ?thesis
      using assms(1-4) False
      by (simp add: handleSendMessage_def sendMessage_def Let_def forAwait_fold
          onChunk_after_turn[OF u] full c)
  qed
qed


section \<open>Facts about the string operations\<close>

lemma trim_split: "dropWhile isWhiteSpace s = trim s @ rev (takeWhile isWhiteSpace (rev (dropWhile isWhiteSpace s)))"
proof -
  let ?a = "dropWhile isWhiteSpace s"
  have "rev (takeWhile isWhiteSpace (rev ?a) @ dropWhile isWhiteSpace (rev ?a)) = rev (rev ?a)"
    by (simp only: takeWhile_dropWhile_id)
  then show ?thesis by (simp only: rev_append rev_rev_ident trim_def)
qed

lemma trim_last: "trim s \<noteq> [] \<Longrightarrow> \<not> isWhiteSpace (last (trim s))"
  by (simp add: trim_def last_rev hd_dropWhile)

lemma trim_hd:
  assumes "trim s \<noteq> []"
  shows "\<not> isWhiteSpace (hd (trim s))"
proof -
  have ne: "dropWhile isWhiteSpace s \<noteq> []"
  proof
    assume "dropWhile isWhiteSpace s = []"
    then have "trim s = []" by (simp only: trim_def rev.simps dropWhile.simps)
    with assms show False by simp
  qed
  have "hd (dropWhile isWhiteSpace s) = hd (trim s)"
    using trim_split[of s] assms by (metis hd_append2)
  then show ?thesis using hd_dropWhile[OF ne] by simp
qed

lemma dropWhile_id: "xs = [] \<or> \<not> P (hd xs) \<Longrightarrow> dropWhile P xs = xs"
  by (cases xs) auto

lemma trim_idem: "trim (trim s) = trim s"
proof (cases "trim s = []")
  case True
  have "trim [] = []" by (simp add: trim_def)
  with True show ?thesis by simp
next
  case False
  have a: "dropWhile isWhiteSpace (trim s) = trim s"
    using trim_hd[OF False] by (simp add: dropWhile_id)
  have "rev (trim s) \<noteq> []" using False by simp
  moreover have "hd (rev (trim s)) = last (trim s)" using False by (simp add: hd_rev)
  ultimately have b: "dropWhile isWhiteSpace (rev (trim s)) = rev (trim s)"
    using trim_last[OF False] by (simp add: dropWhile_id)
  show ?thesis using a b by (simp add: trim_def[of "trim s"])
qed

lemma noResponse_marked: "startsWith noResponseText errorMarker"
  by (simp add: noResponseText_def errorMarker_def ascii_def startsWith_def)

lemma oops_not_marked: "\<not> startsWith oopsText errorMarker"
  by (simp add: oopsText_def errorMarker_def ascii_def startsWith_def)

lemma includes_self: "includes_str t t"
  by (cases t) (simp_all add: startsWith_def)

lemma entityNotFound_invalid: "isSessionInvalid (Error entityNotFoundText)"
  by (simp add: isSessionInvalid_def includes_self)

lemma prefixed_marked: "startsWith (errorPrefix @ m) errorMarker"
  by (simp add: errorPrefix_def errorMarker_def ascii_def startsWith_def)

lemma trim_no_surrounding: "\<not> hasSurroundingWhiteSpace (trim t)"
  using trim_hd[of t] trim_last[of t] by (auto simp: hasSurroundingWhiteSpace_def)


section \<open>The shape of a turn\<close>

lemma fold_record_call: "fold record_call ts calls = calls @ ts"
  by (induction ts arbitrary: calls) (simp_all add: record_call_def)

lemma sendMessage_calls:
  "sendMessage sms msg cb (g, st) =
     (case sendMessage sms msg record_call (g, []) of
        (err, g', fs) \<Rightarrow> (err, g', fold cb fs st))"
  by (cases g)
     (simp_all add: sendMessage_def Let_def forAwait_fold fold_record_call record_call_def
        split: option.splits)

lemma turn_by_calls:
  assumes "trim (input s) \<noteq> []" and "\<not> isLoading s"
    and "sendMessage sms (trim (input s)) record_call (chatSession s, []) = (err, g, fs)"
    and "fs \<noteq> []"
  shows "messages (handleSendMessage sms s) =
           messages s @ [\<lparr>role = User, content = trim (input s)\<rparr>,
                         \<lparr>role = AI, content = concat fs\<rparr>] @
             (if err = None \<or> startsWith (concat fs) errorMarker then []
              else [\<lparr>role = AI, content = noResponseText\<rparr>])"
proof -
  let ?u = "\<lparr>role = User, content = trim (input s)\<rparr>"
  have r: "sendMessage sms (trim (input s)) onChunkReceived (chatSession s, ([], messages s @ [?u])) =
        (err, g, fold onChunkReceived fs ([], messages s @ [?u]))"
    using assms(3) by (simp add: sendMessage_calls[where cb=onChunkReceived])
  have "messages s @ [?u] = [] \<or> role (last (messages s @ [?u])) \<noteq> AI" by simp
  from fold_onChunk_fresh[OF this assms(4), of "[]"]
  have f: "fold onChunkReceived fs ([], messages s @ [?u]) =
        (concat fs, messages s @ [?u, \<lparr>role = AI, content = concat fs\<rparr>])"
    by simp
  have c: "catchUpdate (messages s @ [?u, \<lparr>role = AI, content = concat fs\<rparr>]) =
        messages s @ [?u, \<lparr>role = AI, content = concat fs\<rparr>] @
        (if startsWith (concat fs) errorMarker then [] else [\<lparr>role = AI, content = noResponseText\<rparr>])"
    using catchUpdate_ai[of "messages s @ [?u]" "concat fs"] by simp
  show ?thesis
    using assms(1,2) by (cases err) (simp_all add: handleSendMessage_def Let_def r f c)
qed

lemma turn_shape:
  assumes "trim (input s) \<noteq> []" "\<not> isLoading s"
  shows "\<exists>rest. messages (handleSendMessage sms s) =
           messages s @ [\<lparr>role = User, content = trim (input s)\<rparr>] @ rest
         \<and> list_all (\<lambda>m. role m = AI) rest"
proof (cases "chatSession s")
  case None
  from turn_no_session[OF assms None, of sms] show ?thesis by simp
next
  case (Some c)
  show ?thesis
  proof (cases "failure (sms c (trim (input s)))")
    case None
    from turn_success[where sms=sms, OF assms Some None] show ?thesis by simp
  next
    case (Some e)
    from turn_failure[where sms=sms, OF assms \<open>chatSession s = Some c\<close> Some refl] show ?thesis by simp
  qed
qed

lemma noUserWhiteSpace_append:
  "noUserWhiteSpace (xs @ ys) = (noUserWhiteSpace xs \<and> noUserWhiteSpace ys)"
  by (simp add: noUserWhiteSpace_def)

lemma noUserWhiteSpace_Cons:
  "noUserWhiteSpace (m # ms) =
     ((role m = AI \<or> \<not> hasSurroundingWhiteSpace (content m)) \<and> noUserWhiteSpace ms)"
  by (simp add: noUserWhiteSpace_def)

lemma noUserWhiteSpace_AI: "list_all (\<lambda>m. role m = AI) ms \<Longrightarrow> noUserWhiteSpace ms"
  by (induction ms) (simp_all add: noUserWhiteSpace_def)


section \<open>The claims\<close>

text \<open>
  C1. The fragments of a submitted turn are the arguments the session manager hands to
  \<open>onChunkReceived\<close>, in order (\<open>fs\<close>, the call record of \<open>sendMessage\<close>), whatever the outcome
  of the turn. Starting from a transcript whose last entry is not an Assistant message, the
  first fragment appends the pending Assistant message, and after the first \<open>k\<close> fragments its
  content is the concatenation of exactly those \<open>k\<close> fragments, in order. When the turn is over,
  the message after the User message is the Assistant message whose content is the
  concatenation of the whole sequence; when the stream ended normally, nothing follows it.
\<close>

theorem fragments_concatenate:
  assumes "ms = [] \<or> role (last ms) \<noteq> AI" and "0 < k" and "k \<le> length fs"
    and "trim (input s) \<noteq> []" and "\<not> isLoading s"
    and "sendMessage sendMessageStream (trim (input s)) record_call (chatSession s, []) = (err, g, fs)"
  shows "fold onChunkReceived (take k fs) ([], ms) =
           (concat (take k fs), ms @ [\<lparr>role = AI, content = concat (take k fs)\<rparr>])
       \<and> take (length (messages s) + 2) (messages (handleSendMessage sendMessageStream s)) =
           messages s @ [\<lparr>role = User, content = trim (input s)\<rparr>,
                         \<lparr>role = AI, content = concat fs\<rparr>]
       \<and> (err = None \<longrightarrow>
            messages (handleSendMessage sendMessageStream s) =
              messages s @ [\<lparr>role = User, content = trim (input s)\<rparr>,
                            \<lparr>role = AI, content = concat fs\<rparr>])"
proof -
  have "take k fs \<noteq> []" using assms(2,3) by auto
  from fold_onChunk_fresh[OF assms(1) this, of "[]"]
  have a: "fold onChunkReceived (take k fs) ([], ms) =
           (concat (take k fs), ms @ [\<lparr>role = AI, content = concat (take k fs)\<rparr>])"
    by simp
  have "fs \<noteq> []" using assms(2,3) by auto
  note m = turn_by_calls[where sms=sendMessageStream, OF assms(4,5,6) this]
  have b: "take (length (messages s) + 2) (messages (handleSendMessage sendMessageStream s)) =
           messages s @ [\<lparr>role = User, content = trim (input s)\<rparr>,
                         \<lparr>role = AI, content = concat fs\<rparr>]"
    by (simp add: m)
  have c: "err = None \<longrightarrow>
            messages (handleSendMessage sendMessageStream s) =
              messages s @ [\<lparr>role = User, content = trim (input s)\<rparr>,
                            \<lparr>role = AI, content = concat fs\<rparr>]"
    by (simp add: m)
  from a b c show ?thesis by blast
qed

text \<open>
  C1 at the fragments "Hel", "lo" of a stream that ends normally (with a chunk without text
  between them): "Hel" after the first fragment, "Hello" after the second and in the finished
  turn; and at a stream that throws "boom" after them, where the third fragment is
  "Error: boom" and the pending message ends as "HelloError: boom".
\<close>

theorem fragments_concatenate_witness:
  "trim (ascii '' hi '') = ascii ''hi''
   \<and> sendMessage (\<lambda>c m. \<lparr>chunks = [Some (ascii ''Hel''), None, Some (ascii ''lo'')], failure = None\<rparr>)
        (ascii ''hi'') record_call (Some 0, [])
      = (None, Some 0, [ascii ''Hel'', ascii ''lo''])
   \<and> fold onChunkReceived (take 1 [ascii ''Hel'', ascii ''lo''])
        ([], [\<lparr>role = User, content = ascii ''hi''\<rparr>])
      = (ascii ''Hel'', [\<lparr>role = User, content = ascii ''hi''\<rparr>, \<lparr>role = AI, content = ascii ''Hel''\<rparr>])
   \<and> fold onChunkReceived (take 2 [ascii ''Hel'', ascii ''lo''])
        ([], [\<lparr>role = User, content = ascii ''hi''\<rparr>])
      = (ascii ''Hello'', [\<lparr>role = User, content = ascii ''hi''\<rparr>, \<lparr>role = AI, content = ascii ''Hello''\<rparr>])
   \<and> messages (handleSendMessage
        (\<lambda>c m. \<lparr>chunks = [Some (ascii ''Hel''), None, Some (ascii ''lo'')], failure = None\<rparr>)
        \<lparr>messages = [], input = ascii '' hi '', isLoading = False, chatSessionRef = Some 0,
         chatSession = Some 0\<rparr>)
      = [\<lparr>role = User, content = ascii ''hi''\<rparr>, \<lparr>role = AI, content = ascii ''Hello''\<rparr>]
   \<and> sendMessage (\<lambda>c m. \<lparr>chunks = [Some (ascii ''Hel''), Some (ascii ''lo'')],
                            failure = Some (Error (ascii ''boom''))\<rparr>)
        (ascii ''hi'') record_call (Some 0, [])
      = (Some (Error (ascii ''boom'')), Some 0, [ascii ''Hel'', ascii ''lo'', ascii ''Error: boom''])
   \<and> fold onChunkReceived (take 3 [ascii ''Hel'', ascii ''lo'', ascii ''Error: boom''])
        ([], [\<lparr>role = User, content = ascii ''hi''\<rparr>])
      = (ascii ''HelloError: boom'',
         [\<lparr>role = User, content = ascii ''hi''\<rparr>, \<lparr>role = AI, content = ascii ''HelloError: boom''\<rparr>])
   \<and> take 2 (messages (handleSendMessage
        (\<lambda>c m. \<lparr>chunks = [Some (ascii ''Hel''), Some (ascii ''lo'')],
                  failure = Some (Error (ascii ''boom''))\<rparr>)
        \<lparr>messages = [], input = ascii '' hi '', isLoading = False, chatSessionRef = Some 0,
         chatSession = Some 0\<rparr>))
      = [\<lparr>role = User, content = ascii ''hi''\<rparr>, \<lparr>role = AI, content = ascii ''HelloError: boom''\<rparr>]"
proof -
  let ?s = "\<lparr>messages = [], input = ascii '' hi '', isLoading = False, chatSessionRef = Some 0,
         chatSession = Some (0::nat)\<rparr>"
  let ?ok = "\<lambda>(c::nat) (m::jsstring).
     \<lparr>chunks = [Some (ascii ''Hel''), None, Some (ascii ''lo'')], failure = None\<rparr>"
  let ?bad = "\<lambda>(c::nat) (m::jsstring).
     \<lparr>chunks = [Some (ascii ''Hel''), Some (ascii ''lo'')], failure = Some (Error (ascii ''boom''))\<rparr>"
  let ?ms = "[\<lparr>role = User, content = ascii ''hi''\<rparr>]"
  have t: "trim (ascii '' hi '') = ascii ''hi''"
    by (simp add: trim_def ascii_def isWhiteSpace_def)
  have i: "\<not> isSessionInvalid (Error (ascii ''boom''))"
    by (simp add: isSessionInvalid_def entityNotFoundText_def ascii_def startsWith_def)
  have ok: "sendMessage ?ok (ascii ''hi'') record_call (Some 0, [])
      = (None, Some 0, [ascii ''Hel'', ascii ''lo''])"
    by (simp add: sendMessage_def record_call_def Let_def ascii_def)
  have bad: "sendMessage ?bad (ascii ''hi'') record_call (Some 0, [])
      = (Some (Error (ascii ''boom'')), Some 0, [ascii ''Hel'', ascii ''lo'', ascii ''Error: boom''])"
    using i by (simp add: sendMessage_def record_call_def Let_def errorPrefix_def errorText_def ascii_def)
  have m: "?ms = [] \<or> role (last ?ms) \<noteq> AI" by simp
  have n: "trim (input ?s) \<noteq> []" "\<not> isLoading ?s" using t by (simp_all add: ascii_def)
  have ok': "sendMessage ?ok (trim (input ?s)) record_call (chatSession ?s, [])
      = (None, Some 0, [ascii ''Hel'', ascii ''lo''])" using ok t by simp
  have bad': "sendMessage ?bad (trim (input ?s)) record_call (chatSession ?s, [])
      = (Some (Error (ascii ''boom'')), Some 0, [ascii ''Hel'', ascii ''lo'', ascii ''Error: boom''])"
    using bad t by simp
  have k1: "(0::nat) < 1" "(1::nat) \<le> length [ascii ''Hel'', ascii ''lo'']" by simp_all
  have k2: "(0::nat) < 2" "(2::nat) \<le> length [ascii ''Hel'', ascii ''lo'']" by simp_all
  have k3: "(0::nat) < 3" "(3::nat) \<le> length [ascii ''Hel'', ascii ''lo'', ascii ''Error: boom'']"
    by simp_all
  note w1 = fragments_concatenate[OF m k1 n ok']
  note w2 = fragments_concatenate[OF m k2 n ok']
  note w3 = fragments_concatenate[OF m k3 n bad']
  have p1: "fold onChunkReceived (take 1 [ascii ''Hel'', ascii ''lo''])
        ([], [\<lparr>role = User, content = ascii ''hi''\<rparr>])
      = (ascii ''Hel'', [\<lparr>role = User, content = ascii ''hi''\<rparr>, \<lparr>role = AI, content = ascii ''Hel''\<rparr>])"
    using w1 by (simp add: ascii_def)
  have p2: "fold onChunkReceived (take 2 [ascii ''Hel'', ascii ''lo''])
        ([], [\<lparr>role = User, content = ascii ''hi''\<rparr>])
      = (ascii ''Hello'', [\<lparr>role = User, content = ascii ''hi''\<rparr>, \<lparr>role = AI, content = ascii ''Hello''\<rparr>])"
    using w2 by (simp add: ascii_def)
  have p3: "messages (handleSendMessage ?ok ?s)
      = [\<lparr>role = User, content = ascii ''hi''\<rparr>, \<lparr>role = AI, content = ascii ''Hello''\<rparr>]"
    using w2 t by (simp add: ascii_def)
  have p4: "fold onChunkReceived (take 3 [ascii ''Hel'', ascii ''lo'', ascii ''Error: boom''])
        ([], [\<lparr>role = User, content = ascii ''hi''\<rparr>])
      = (ascii ''HelloError: boom'',
         [\<lparr>role = User, content = ascii ''hi''\<rparr>, \<lparr>role = AI, content = ascii ''HelloError: boom''\<rparr>])"
    using w3 by (simp add: ascii_def)
  have p5: "take 2 (messages (handleSendMessage ?bad ?s))
      = [\<lparr>role = User, content = ascii ''hi''\<rparr>, \<lparr>role = AI, content = ascii ''HelloError: boom''\<rparr>]"
    using w3 t by (simp add: ascii_def numeral_2_eq_2)
  from t ok bad p1 p2 p3 p4 p5 show ?thesis by blast
qed

text \<open>
  C2 as stated fails: after a SessionInvalid turn the next \<open>submit\<close> does not recreate the session.
  \<open>sendMessage\<close> throws its "not initialized" error before it contacts the provider, so the
  turn ends with the generic error message and the session still absent, although the provider
  would have answered "ok".
\<close>

theorem submit_after_session_invalid_counterexample:
  "handleSendMessage (\<lambda>c m. \<lparr>chunks = [Some (ascii ''ok'')], failure = None\<rparr>)
     ((handleSendMessage (\<lambda>c m. \<lparr>chunks = [], failure = Some (Error entityNotFoundText)\<rparr>)
        \<lparr>messages = [], input = ascii ''hi'', isLoading = False, chatSessionRef = Some 0,
         chatSession = Some 0\<rparr>)\<lparr>input := ascii ''again''\<rparr>)
      = \<lparr>messages = [\<lparr>role = User, content = ascii ''hi''\<rparr>,
                     \<lparr>role = AI, content = oopsText\<rparr>,
                     \<lparr>role = AI, content = noResponseText\<rparr>,
                     \<lparr>role = User, content = ascii ''again''\<rparr>,
                     \<lparr>role = AI, content = noResponseText\<rparr>],
         input = [], isLoading = False, chatSessionRef = Some 0, chatSession = None\<rparr>"
proof -
  have t: "trim (ascii ''hi'') = ascii ''hi''"
    by (simp add: trim_def ascii_def isWhiteSpace_def)
  have t2: "trim (ascii ''again'') = ascii ''again''"
    by (simp add: trim_def ascii_def isWhiteSpace_def)
  have n: "ascii ''again'' \<noteq> []" by (simp add: ascii_def)
  have h: "ascii ''hi'' \<noteq> []" by (simp add: ascii_def)
  show ?thesis
    using t t2 n h oops_not_marked noResponse_marked
    by (simp add: Let_def handleSendMessage_def sendMessage_def entityNotFound_invalid
        onChunkReceived_def catchUpdate_def)
qed

text \<open>
  C2, amended. After a SessionInvalid error during a turn the session handle of the session
  manager is absent and the busy flag is false. The next \<open>submit\<close> with non-blank text does not
  recreate the session: \<open>sendMessage\<close> throws its "not initialized" error, the turn appends the
  User message and exactly one error message, and leaves the busy flag false and the session
  absent. A \<open>resetConversation\<close> whose session creation succeeds creates the session again; one
  whose session creation fails leaves it absent.
\<close>

theorem submit_after_session_invalid:
  assumes "trim (input s) \<noteq> []" and "\<not> isLoading s" and "chatSession s = Some c"
    and "failure (sendMessageStream c (trim (input s))) = Some e" and "isSessionInvalid e"
    and "s1 = handleSendMessage sendMessageStream s"
    and "trim t \<noteq> []"
    and "s2 = handleSendMessage sendMessageStream' (s1\<lparr>input := t\<rparr>)"
  shows "chatSession s1 = None \<and> isLoading s1 = False
       \<and> messages s2 = messages s1 @ [\<lparr>role = User, content = trim t\<rparr>,
                                       \<lparr>role = AI, content = noResponseText\<rparr>]
       \<and> isLoading s2 = False \<and> chatSession s2 = None
       \<and> fst (sendMessage sendMessageStream' (trim t) onChunkReceived
                 (chatSession s1, ([], messages s1 @ [\<lparr>role = User, content = trim t\<rparr>])))
           = Some (Error notInitializedText)
       \<and> chatSession (handleClearChat (Inr c') s2) = Some c'
       \<and> chatSession (handleClearChat (Inl e') s2) = None"
proof -
  have a: "chatSession s1 = None" "isLoading s1 = False"
    using turn_failure[where sms=sendMessageStream, OF assms(1-4) refl] assms(5,6) by simp_all
  have "trim (input (s1\<lparr>input := t\<rparr>)) \<noteq> []" "\<not> isLoading (s1\<lparr>input := t\<rparr>)"
    "chatSession (s1\<lparr>input := t\<rparr>) = None"
    using a assms(7) by simp_all
  from turn_no_session[OF this, of sendMessageStream'] assms(8)
  have b: "messages s2 = messages s1 @ [\<lparr>role = User, content = trim t\<rparr>,
                                       \<lparr>role = AI, content = noResponseText\<rparr>]"
    "isLoading s2 = False" "chatSession s2 = None"
    using a by simp_all
  have c: "chatSession (handleClearChat (Inr c') s2) = Some c'"
    by (simp add: handleClearChat_def createChatSession_def Let_def)
  have d: "chatSession (handleClearChat (Inl e') s2) = None"
    using b(3) by (simp add: handleClearChat_def createChatSession_def Let_def)
  have e: "fst (sendMessage sendMessageStream' (trim t) onChunkReceived
                 (chatSession s1, ([], messages s1 @ [\<lparr>role = User, content = trim t\<rparr>])))
           = Some (Error notInitializedText)"
    using a(1) by (simp add: sendMessage_def)
  from a b c d e show ?thesis by simp
qed

text \<open>
  C2, amended, at a turn that fails with "Requested entity was not found." followed by the
  submission of "again".
\<close>

theorem submit_after_session_invalid_witness:
  "trim (ascii ''hi'') \<noteq> [] \<and> isSessionInvalid (Error entityNotFoundText)
   \<and> trim (ascii ''again'') = ascii ''again''
   \<and> chatSession (handleSendMessage (\<lambda>c m. \<lparr>chunks = [], failure = Some (Error entityNotFoundText)\<rparr>)
        \<lparr>messages = [], input = ascii ''hi'', isLoading = False, chatSessionRef = Some 0,
         chatSession = Some 0\<rparr>) = None
   \<and> messages (handleSendMessage (\<lambda>c m. \<lparr>chunks = [Some (ascii ''ok'')], failure = None\<rparr>)
       ((handleSendMessage (\<lambda>c m. \<lparr>chunks = [], failure = Some (Error entityNotFoundText)\<rparr>)
          \<lparr>messages = [], input = ascii ''hi'', isLoading = False, chatSessionRef = Some 0,
           chatSession = Some 0\<rparr>)\<lparr>input := ascii ''again''\<rparr>))
     = messages (handleSendMessage (\<lambda>c m. \<lparr>chunks = [], failure = Some (Error entityNotFoundText)\<rparr>)
          \<lparr>messages = [], input = ascii ''hi'', isLoading = False, chatSessionRef = Some 0,
           chatSession = Some 0\<rparr>)
        @ [\<lparr>role = User, content = ascii ''again''\<rparr>, \<lparr>role = AI, content = noResponseText\<rparr>]
   \<and> chatSession (handleClearChat (Inr 7)
       (handleSendMessage (\<lambda>c m. \<lparr>chunks = [Some (ascii ''ok'')], failure = None\<rparr>)
       ((handleSendMessage (\<lambda>c m. \<lparr>chunks = [], failure = Some (Error entityNotFoundText)\<rparr>)
          \<lparr>messages = [], input = ascii ''hi'', isLoading = False, chatSessionRef = Some 0,
           chatSession = Some 0\<rparr>)\<lparr>input := ascii ''again''\<rparr>))) = Some 7"
proof -
  have t: "trim (ascii ''hi'') = ascii ''hi''"
    by (simp add: trim_def ascii_def isWhiteSpace_def)
  have t2: "trim (ascii ''again'') = ascii ''again''"
    by (simp add: trim_def ascii_def isWhiteSpace_def)
  have n: "ascii ''again'' \<noteq> []" by (simp add: ascii_def)
  have h: "ascii ''hi'' \<noteq> []" by (simp add: ascii_def)
  show ?thesis
    using submit_after_session_invalid [of
        "\<lparr>messages = [], input = ascii ''hi'', isLoading = False, chatSessionRef = Some 0,
           chatSession = Some 0\<rparr>" 0
        "\<lambda>c m. \<lparr>chunks = [], failure = Some (Error entityNotFoundText)\<rparr>"
        "Error entityNotFoundText"
        "handleSendMessage (\<lambda>c m. \<lparr>chunks = [], failure = Some (Error entityNotFoundText)\<rparr>)
          \<lparr>messages = [], input = ascii ''hi'', isLoading = False, chatSessionRef = Some 0,
           chatSession = Some 0\<rparr>"
        "ascii ''again''"
        "handleSendMessage (\<lambda>c m. \<lparr>chunks = [Some (ascii ''ok'')], failure = None\<rparr>)
       ((handleSendMessage (\<lambda>c m. \<lparr>chunks = [], failure = Some (Error entityNotFoundText)\<rparr>)
          \<lparr>messages = [], input = ascii ''hi'', isLoading = False, chatSessionRef = Some 0,
           chatSession = Some 0\<rparr>)\<lparr>input := ascii ''again''\<rparr>)"
        "\<lambda>c m. \<lparr>chunks = [Some (ascii ''ok'')], failure = None\<rparr>" 7]
      t t2 n h entityNotFound_invalid
    by simp
qed

text \<open>
  C3 (at most one Assistant message per \<open>submit\<close>) fails on the code when the stream is rejected
  with a SessionInvalid error: the session manager delivers its "Oops!" fragment, which becomes
  an Assistant message, and the \<open>catch\<close> block of \<open>handleSendMessage\<close> appends the generic
  error message as well, because the "Oops!" text does not start with "Error:". The turn
  appends one User message and two Assistant messages.
\<close>

theorem session_invalid_appends_two_assistant_messages:
  "handleSendMessage (\<lambda>c m. \<lparr>chunks = [], failure = Some (Error entityNotFoundText)\<rparr>)
        \<lparr>messages = [], input = ascii ''hi'', isLoading = False, chatSessionRef = Some 0,
         chatSession = Some 0\<rparr>
      = \<lparr>messages = [\<lparr>role = User, content = ascii ''hi''\<rparr>,
                     \<lparr>role = AI, content = oopsText\<rparr>,
                     \<lparr>role = AI, content = noResponseText\<rparr>],
         input = [], isLoading = False, chatSessionRef = Some 0, chatSession = None\<rparr>
   \<and> count_role AI [\<lparr>role = User, content = ascii ''hi''\<rparr>,
                     \<lparr>role = AI, content = oopsText\<rparr>,
                     \<lparr>role = AI, content = noResponseText\<rparr>] = 2"
proof -
  have t: "trim (ascii ''hi'') = ascii ''hi''"
    by (simp add: trim_def ascii_def isWhiteSpace_def)
  have h: "ascii ''hi'' \<noteq> []" by (simp add: ascii_def)
  show ?thesis
    using t h oops_not_marked
    by (simp add: Let_def handleSendMessage_def sendMessage_def entityNotFound_invalid
        onChunkReceived_def catchUpdate_def count_role_def)
qed

text \<open>
  C4. \<open>submit\<close> is a no-op whenever the text is empty or whitespace-only, in any state, and
  whenever the controller is busy: the transcript, the busy flag, the session and every other
  part of the state are unchanged.
\<close>

theorem submit_noop:
  "trim (input s) = [] \<or> isLoading s \<Longrightarrow> handleSendMessage sendMessageStream s = s"
  by (simp add: handleSendMessage_def)

text \<open>C4, at a busy state with non-blank text and at an idle state with blank text.\<close>

theorem submit_noop_witness:
  "(trim (input \<lparr>messages = [\<lparr>role = AI, content = ascii ''Hel''\<rparr>], input = ascii ''more'',
       isLoading = True, chatSessionRef = Some 0, chatSession = Some 0\<rparr>) = []
     \<or> isLoading \<lparr>messages = [\<lparr>role = AI, content = ascii ''Hel''\<rparr>], input = ascii ''more'',
       isLoading = True, chatSessionRef = Some 0, chatSession = Some 0\<rparr>)
   \<and> handleSendMessage (\<lambda>c m. \<lparr>chunks = [Some (ascii ''ok'')], failure = None\<rparr>)
       \<lparr>messages = [\<lparr>role = AI, content = ascii ''Hel''\<rparr>], input = ascii ''more'',
        isLoading = True, chatSessionRef = Some 0, chatSession = Some 0\<rparr>
     = \<lparr>messages = [\<lparr>role = AI, content = ascii ''Hel''\<rparr>], input = ascii ''more'',
        isLoading = True, chatSessionRef = Some 0, chatSession = Some 0\<rparr>
   \<and> trim (ascii ''   '') = []
   \<and> handleSendMessage (\<lambda>c m. \<lparr>chunks = [Some (ascii ''ok'')], failure = None\<rparr>)
       \<lparr>messages = [], input = ascii ''   '', isLoading = False, chatSessionRef = Some 0,
        chatSession = Some 0\<rparr>
     = \<lparr>messages = [], input = ascii ''   '', isLoading = False, chatSessionRef = Some 0,
        chatSession = Some 0\<rparr>"
  using submit_noop [of "\<lparr>messages = [\<lparr>role = AI, content = ascii ''Hel''\<rparr>], input = ascii ''more'',
       isLoading = True, chatSessionRef = Some 0, chatSession = Some 0\<rparr>"
       "\<lambda>c m. \<lparr>chunks = [Some (ascii ''ok'')], failure = None\<rparr>"]
    submit_noop [of "\<lparr>messages = [], input = ascii ''   '', isLoading = False,
       chatSessionRef = Some 0, chatSession = Some 0\<rparr>"
       "\<lambda>c m. \<lparr>chunks = [Some (ascii ''ok'')], failure = None\<rparr>"]
  by (simp add: trim_def ascii_def isWhiteSpace_def)

text \<open>
  C5 as stated fails: a stream that ends normally without any non-empty text (here one chunk
  without text) leaves only the User message in the transcript; no Assistant message is added.
\<close>

theorem no_reply_no_feedback_counterexample:
  "trim (ascii ''hi'') \<noteq> []
   \<and> handleSendMessage (\<lambda>c m. \<lparr>chunks = [None], failure = None\<rparr>)
        \<lparr>messages = [], input = ascii ''hi'', isLoading = False, chatSessionRef = Some 0,
         chatSession = Some 0\<rparr>
      = \<lparr>messages = [\<lparr>role = User, content = ascii ''hi''\<rparr>], input = [], isLoading = False,
         chatSessionRef = Some 0, chatSession = Some 0\<rparr>"
  by (simp add: Let_def handleSendMessage_def sendMessage_def trim_def isWhiteSpace_def ascii_def)

text \<open>
  C5, amended. Every \<open>submit\<close> with non-blank text while idle returns a state (the function is
  total and the exception of \<open>sendMessage\<close> is consumed by the \<open>catch\<close> block) with the busy
  flag false. The turn adds at least one Assistant message exactly when it fails (session
  absent, SessionInvalid or any other thrown value) or the stream delivers at least one
  non-empty text.
\<close>

theorem turn_ends_idle_with_feedback:
  assumes "trim (input s) \<noteq> []" and "\<not> isLoading s"
  shows "isLoading (handleSendMessage sendMessageStream s) = False
       \<and> (1 \<le> count_role AI (appended (length (messages s)) (handleSendMessage sendMessageStream s))
            \<longleftrightarrow>
          (case chatSession s of
             None \<Rightarrow> True
           | Some c \<Rightarrow> failure (sendMessageStream c (trim (input s))) \<noteq> None
                       \<or> deliveredTexts (chunks (sendMessageStream c (trim (input s)))) \<noteq> []))"
proof (cases "chatSession s")
  case None
  from turn_no_session[OF assms None, of sendMessageStream] None show ?thesis
    by (simp add: appended_def count_role_def)
next
  case (Some c)
  show ?thesis
  proof (cases "failure (sendMessageStream c (trim (input s)))")
    case None
    from turn_success[where sms=sendMessageStream, OF assms Some None] Some None show ?thesis
      by (simp add: appended_def count_role_def)
  next
    case (Some e)
    from turn_failure[where sms=sendMessageStream, OF assms \<open>chatSession s = Some c\<close> Some refl]
      \<open>chatSession s = Some c\<close> Some
    show ?thesis
      by (simp add: appended_def count_role_def)
  qed
qed

text \<open>
  C5, amended, at a turn with the reply "Hello" and at a turn without a session.
\<close>

theorem turn_ends_idle_with_feedback_witness:
  "trim (ascii ''hi'') \<noteq> []
   \<and> isLoading (handleSendMessage (\<lambda>c m. \<lparr>chunks = [Some (ascii ''Hello'')], failure = None\<rparr>)
        \<lparr>messages = [], input = ascii ''hi'', isLoading = False, chatSessionRef = Some 0,
         chatSession = Some 0\<rparr>) = False
   \<and> 1 \<le> count_role AI (appended 0
        (handleSendMessage (\<lambda>c m. \<lparr>chunks = [Some (ascii ''Hello'')], failure = None\<rparr>)
        \<lparr>messages = [], input = ascii ''hi'', isLoading = False, chatSessionRef = Some 0,
         chatSession = Some 0\<rparr>))
   \<and> 1 \<le> count_role AI (appended 0
        (handleSendMessage (\<lambda>c m. \<lparr>chunks = [], failure = Some (NonError (ascii ''boom''))\<rparr>)
        \<lparr>messages = [], input = ascii ''hi'', isLoading = False, chatSessionRef = None,
         chatSession = None\<rparr>))"
  using turn_ends_idle_with_feedback [of
        "\<lparr>messages = [], input = ascii ''hi'', isLoading = False, chatSessionRef = Some 0,
         chatSession = Some 0\<rparr>"
        "\<lambda>c m. \<lparr>chunks = [Some (ascii ''Hello'')], failure = None\<rparr>"]
    turn_ends_idle_with_feedback [of
        "\<lparr>messages = [], input = ascii ''hi'', isLoading = False, chatSessionRef = None,
         chatSession = None\<rparr>"
        "\<lambda>c m. \<lparr>chunks = [], failure = Some (NonError (ascii ''boom''))\<rparr>"]
  by (simp add: trim_def isWhiteSpace_def ascii_def deliveredTexts_def)

text \<open>
  C6. \<open>resetConversation\<close>, run to completion from any state, leaves the transcript with exactly
  one message, an Assistant message: the greeting when the session was created, the error
  message when its creation failed. The busy flag is false afterwards.
\<close>

theorem reset_leaves_one_message:
  "messages (handleClearChat created s) =
     [\<lparr>role = AI, content = (case created of Inl e \<Rightarrow> resetFailedText | Inr c \<Rightarrow> clearedText)\<rparr>]
   \<and> count_role AI (messages (handleClearChat created s)) = 1
   \<and> isLoading (handleClearChat created s) = False"
  by (cases created) (simp_all add: handleClearChat_def createChatSession_def Let_def count_role_def)

text \<open>
  C8. When the stream of a turn fails with a thrown value that is not classified as
  SessionInvalid, the transcript ends with an Assistant message of this turn whose content
  starts with "Error:" (when no text arrived before the failure it is the single message
  "Error: " followed by the error's text), the session handles are unchanged, and the busy flag
  is false.
\<close>

theorem generic_failure_reported:
  assumes "trim (input s) \<noteq> []" and "\<not> isLoading s" and "chatSession s = Some c"
    and "failure (sendMessageStream c (trim (input s))) = Some e"
    and "\<not> isSessionInvalid e"
  shows "length (messages s) + 2 \<le> length (messages (handleSendMessage sendMessageStream s))
       \<and> role (last (messages (handleSendMessage sendMessageStream s))) = AI
       \<and> startsWith (content (last (messages (handleSendMessage sendMessageStream s)))) errorMarker
       \<and> (deliveredTexts (chunks (sendMessageStream c (trim (input s)))) = [] \<longrightarrow>
            messages (handleSendMessage sendMessageStream s) =
              messages s @ [\<lparr>role = User, content = trim (input s)\<rparr>,
                            \<lparr>role = AI, content = errorPrefix @ errorText e\<rparr>])
       \<and> chatSession (handleSendMessage sendMessageStream s) = chatSession s
       \<and> chatSessionRef (handleSendMessage sendMessageStream s) = chatSessionRef s
       \<and> isLoading (handleSendMessage sendMessageStream s) = False"
proof -
  let ?full = "concat (deliveredTexts (chunks (sendMessageStream c (trim (input s))))) @
                 (if isSessionInvalid e then oopsText else errorPrefix @ errorText e)"
  note eq = turn_failure[where sms=sendMessageStream, OF assms(1-4) refl]
  show ?thesis
  proof (cases "startsWith ?full errorMarker")
    case True
    then show ?thesis using assms(3,5) by (simp add: eq prefixed_marked)
  next
    case False
    then show ?thesis using assms(3,5) by (auto simp add: eq noResponse_marked prefixed_marked)
  qed
qed

text \<open>
  C8 at a stream that throws the Error "boom" at once, and at one that throws after the
  fragment "Hel".
\<close>

theorem generic_failure_reported_witness:
  "trim (ascii ''hi'') = ascii ''hi''
   \<and> \<not> isSessionInvalid (Error (ascii ''boom''))
   \<and> handleSendMessage (\<lambda>c m. \<lparr>chunks = [], failure = Some (Error (ascii ''boom''))\<rparr>)
        \<lparr>messages = [], input = ascii ''hi'', isLoading = False, chatSessionRef = Some 0,
         chatSession = Some 0\<rparr>
      = \<lparr>messages = [\<lparr>role = User, content = ascii ''hi''\<rparr>,
                     \<lparr>role = AI, content = ascii ''Error: boom''\<rparr>],
         input = [], isLoading = False, chatSessionRef = Some 0, chatSession = Some 0\<rparr>
   \<and> startsWith (ascii ''Error: boom'') errorMarker
   \<and> messages (handleSendMessage
        (\<lambda>c m. \<lparr>chunks = [Some (ascii ''Hel'')], failure = Some (NonError (ascii ''boom''))\<rparr>)
        \<lparr>messages = [], input = ascii ''hi'', isLoading = False, chatSessionRef = Some 0,
         chatSession = Some 0\<rparr>)
      = [\<lparr>role = User, content = ascii ''hi''\<rparr>,
         \<lparr>role = AI, content = ascii ''HelError: boom''\<rparr>,
         \<lparr>role = AI, content = noResponseText\<rparr>]"
proof -
  have t: "trim (ascii ''hi'') = ascii ''hi''"
    by (simp add: trim_def ascii_def isWhiteSpace_def)
  have i: "\<not> isSessionInvalid (Error (ascii ''boom''))"
    by (simp add: isSessionInvalid_def entityNotFoundText_def ascii_def startsWith_def)
  have g: "handleSendMessage (\<lambda>c m. \<lparr>chunks = [], failure = Some (Error (ascii ''boom''))\<rparr>)
        \<lparr>messages = [], input = ascii ''hi'', isLoading = False, chatSessionRef = Some 0,
         chatSession = Some 0\<rparr>
      = \<lparr>messages = [\<lparr>role = User, content = ascii ''hi''\<rparr>,
                     \<lparr>role = AI, content = ascii ''Error: boom''\<rparr>],
         input = [], isLoading = False, chatSessionRef = Some 0, chatSession = Some 0\<rparr>"
    using generic_failure_reported [of
        "\<lparr>messages = [], input = ascii ''hi'', isLoading = False, chatSessionRef = Some 0,
         chatSession = Some 0\<rparr>" 0
        "\<lambda>c m. \<lparr>chunks = [], failure = Some (Error (ascii ''boom''))\<rparr>" "Error (ascii ''boom'')"] t i
    by (simp add: Let_def handleSendMessage_def sendMessage_def i onChunkReceived_def catchUpdate_def
        errorPrefix_def errorText_def errorMarker_def startsWith_def ascii_def)
  have m: "startsWith (ascii ''Error: boom'') errorMarker"
    by (simp add: errorMarker_def startsWith_def ascii_def)
  have p: "messages (handleSendMessage
        (\<lambda>c m. \<lparr>chunks = [Some (ascii ''Hel'')], failure = Some (NonError (ascii ''boom''))\<rparr>)
        \<lparr>messages = [], input = ascii ''hi'', isLoading = False, chatSessionRef = Some 0,
         chatSession = Some 0\<rparr>)
      = [\<lparr>role = User, content = ascii ''hi''\<rparr>,
         \<lparr>role = AI, content = ascii ''HelError: boom''\<rparr>,
         \<lparr>role = AI, content = noResponseText\<rparr>]"
    using t
    by (simp add: Let_def handleSendMessage_def sendMessage_def isSessionInvalid_def onChunkReceived_def
        catchUpdate_def errorPrefix_def errorText_def errorMarker_def startsWith_def ascii_def)
  from t i g m p show ?thesis by blast
qed

text \<open>
  C9 as stated fails: the loop skips every chunk whose \<open>text\<close> is absent or empty. Of three
  incoming chunks (empty text, no text, "a") only the third reaches the callback.
\<close>

theorem callbacks_skip_empty_chunks_counterexample:
  "length (chunks \<lparr>chunks = [Some [], None, Some (ascii ''a'')], failure = None\<rparr>) = 3
   \<and> sendMessage (\<lambda>c m. \<lparr>chunks = [Some [], None, Some (ascii ''a'')], failure = None\<rparr>)
        (ascii ''hi'') record_call (Some 0, [])
      = (None, Some 0, [ascii ''a''])"
  by (simp add: sendMessage_def record_call_def Let_def ascii_def)

text \<open>
  C9, amended. With a session present, \<open>sendMessage\<close> invokes the callback exactly once for
  each incoming chunk whose text is non-empty, in arrival order, and not at all for a chunk
  whose text is absent or empty; when the stream fails, one more invocation with the error
  fragment follows.
\<close>

theorem callbacks_once_per_text:
  "snd (snd (sendMessage sendMessageStream msg record_call (Some c, calls))) =
     calls @ deliveredTexts (chunks (sendMessageStream c msg)) @
       (case failure (sendMessageStream c msg) of
          None \<Rightarrow> []
        | Some e \<Rightarrow> [if isSessionInvalid e then oopsText else errorPrefix @ errorText e])"
  by (simp add: sendMessage_def Let_def forAwait_fold fold_record_call record_call_def
      split: option.splits)

text \<open>
  C10. For every input accepted by \<open>submit\<close>, the message appended right after the previous
  transcript is the User message whose content is the trimmed input; that content has no
  white space at either end, so a transcript without surrounding white space in its User
  messages stays so.
\<close>

theorem user_message_trimmed:
  assumes "trim (input s) \<noteq> []" and "\<not> isLoading s"
  shows "take (Suc (length (messages s))) (messages (handleSendMessage sendMessageStream s)) =
           messages s @ [\<lparr>role = User, content = trim (input s)\<rparr>]
       \<and> \<not> hasSurroundingWhiteSpace (trim (input s))
       \<and> (noUserWhiteSpace (messages s) \<longrightarrow>
            noUserWhiteSpace (messages (handleSendMessage sendMessageStream s)))"
proof -
  from turn_shape[OF assms, of sendMessageStream] obtain rest where
    m: "messages (handleSendMessage sendMessageStream s) =
          messages s @ [\<lparr>role = User, content = trim (input s)\<rparr>] @ rest"
    and r: "list_all (\<lambda>m. role m = AI) rest" by blast
  have a: "take (Suc (length (messages s))) (messages (handleSendMessage sendMessageStream s)) =
           messages s @ [\<lparr>role = User, content = trim (input s)\<rparr>]"
    by (simp add: m)
  have b: "\<not> hasSurroundingWhiteSpace (trim (input s))" by (rule trim_no_surrounding)
  have "noUserWhiteSpace [\<lparr>role = User, content = trim (input s)\<rparr>]"
    using b by (simp add: noUserWhiteSpace_def)
  then have c: "noUserWhiteSpace (messages s) \<longrightarrow>
            noUserWhiteSpace (messages (handleSendMessage sendMessageStream s))"
    using noUserWhiteSpace_AI[OF r] by (simp add: m noUserWhiteSpace_append noUserWhiteSpace_Cons)
  from a b c show ?thesis by blast
qed

text \<open>
  C10 at the input "  hi there ".
\<close>

theorem user_message_trimmed_witness:
  "trim (ascii ''  hi there '') = ascii ''hi there''
   \<and> noUserWhiteSpace [\<lparr>role = AI, content = ascii '' Hello! ''\<rparr>]
   \<and> take 2 (messages (handleSendMessage
        (\<lambda>c m. \<lparr>chunks = [Some (ascii ''ok '')], failure = None\<rparr>)
        \<lparr>messages = [\<lparr>role = AI, content = ascii '' Hello! ''\<rparr>], input = ascii ''  hi there '',
         isLoading = False, chatSessionRef = Some 0, chatSession = Some 0\<rparr>))
      = [\<lparr>role = AI, content = ascii '' Hello! ''\<rparr>, \<lparr>role = User, content = ascii ''hi there''\<rparr>]
   \<and> \<not> hasSurroundingWhiteSpace (ascii ''hi there'')
   \<and> noUserWhiteSpace (messages (handleSendMessage
        (\<lambda>c m. \<lparr>chunks = [Some (ascii ''ok '')], failure = None\<rparr>)
        \<lparr>messages = [\<lparr>role = AI, content = ascii '' Hello! ''\<rparr>], input = ascii ''  hi there '',
         isLoading = False, chatSessionRef = Some 0, chatSession = Some 0\<rparr>))"
proof -
  have t: "trim (ascii ''  hi there '') = ascii ''hi there''"
    by (simp add: trim_def ascii_def isWhiteSpace_def)
  have n: "noUserWhiteSpace [\<lparr>role = AI, content = ascii '' Hello! ''\<rparr>]"
    by (simp add: noUserWhiteSpace_def)
  show ?thesis
    using user_message_trimmed [of
        "\<lparr>messages = [\<lparr>role = AI, content = ascii '' Hello! ''\<rparr>], input = ascii ''  hi there '',
         isLoading = False, chatSessionRef = Some 0, chatSession = Some 0\<rparr>"
        "\<lambda>c m. \<lparr>chunks = [Some (ascii ''ok '')], failure = None\<rparr>"] t n
    by (simp add: ascii_def numeral_2_eq_2)
qed

end
